theory Spec2Isabelle
  imports Complex_Main
begin

section \<open>Cells, grids and floating-point arithmetic\<close>

text \<open>
  \<^verbatim>\<open>HWSD_total_column.py\<close> works on xarray \<^verbatim>\<open>DataArray\<close>s of floating-point numbers.
  A cell is either a finite number or not-a-number, the marker xarray uses for "no data":
  \<open>None\<close> is NaN. A grid maps a cell index (of any type \<open>'i\<close>: the dimensions are not
  fixed by the script) to its cell; all grids of one dataset share the index, as the
  variables of one xarray \<^verbatim>\<open>Dataset\<close> do.

  Every arithmetic operation computes the exact result and rounds it into the array's
  floating-point format. The format is not fixed by the script (it is the one of the input
  files), so the rounding function is a parameter \<open>rnd\<close> of every operation: the identity
  gives exact arithmetic, \<open>binary64\<close> and \<open>binary32\<close> below give IEEE double and single
  precision. Overflow to an infinity is outside the model: cell values stay finite.
\<close>

type_synonym cell = "real option"
type_synonym rounding = "real \<Rightarrow> real"
type_synonym 'i grid = "'i \<Rightarrow> cell"

definition fadd :: "rounding \<Rightarrow> cell \<Rightarrow> cell \<Rightarrow> cell" where
  "fadd rnd a b =
     (case a of None \<Rightarrow> None
      | Some x \<Rightarrow> (case b of None \<Rightarrow> None | Some y \<Rightarrow> Some (rnd (x + y))))"

definition fmul :: "rounding \<Rightarrow> cell \<Rightarrow> real \<Rightarrow> cell" where
  "fmul rnd a c = (case a of None \<Rightarrow> None | Some x \<Rightarrow> Some (rnd (x * rnd c)))"

definition fdiv :: "rounding \<Rightarrow> cell \<Rightarrow> real \<Rightarrow> cell" where
  "fdiv rnd a c = (case a of None \<Rightarrow> None | Some x \<Rightarrow> Some (rnd (x / rnd c)))"

text \<open>A comparison with NaN is false.\<close>

definition fge :: "rounding \<Rightarrow> cell \<Rightarrow> real \<Rightarrow> bool" where
  "fge rnd a c = (case a of None \<Rightarrow> False | Some x \<Rightarrow> rnd c \<le> x)"

text \<open>
  The element-wise operations of the script: \<^verbatim>\<open>a + b\<close>, \<^verbatim>\<open>a * c\<close>, \<^verbatim>\<open>a / c\<close> and
  \<^verbatim>\<open>a >= c\<close> for a Python float literal \<open>c\<close>, and \<^verbatim>\<open>a.where(cond, other=b)\<close>, which keeps
  the cell of \<open>a\<close> where \<open>cond\<close> is true and takes the cell of \<open>b\<close> elsewhere.
\<close>

definition gadd :: "rounding \<Rightarrow> 'i grid \<Rightarrow> 'i grid \<Rightarrow> 'i grid" where
  "gadd rnd a b = (\<lambda>i. fadd rnd (a i) (b i))"

definition gmul :: "rounding \<Rightarrow> 'i grid \<Rightarrow> real \<Rightarrow> 'i grid" where
  "gmul rnd a c = (\<lambda>i. fmul rnd (a i) c)"

definition gdiv :: "rounding \<Rightarrow> 'i grid \<Rightarrow> real \<Rightarrow> 'i grid" where
  "gdiv rnd a c = (\<lambda>i. fdiv rnd (a i) c)"

definition gge :: "rounding \<Rightarrow> 'i grid \<Rightarrow> real \<Rightarrow> ('i \<Rightarrow> bool)" where
  "gge rnd a c = (\<lambda>i. fge rnd (a i) c)"

definition da_where :: "'i grid \<Rightarrow> ('i \<Rightarrow> bool) \<Rightarrow> 'i grid \<Rightarrow> 'i grid" where
  "da_where a cond other = (\<lambda>i. if cond i then a i else other i)"

subsection \<open>Rounding to the IEEE binary formats\<close>

text \<open>
  Round to nearest, ties to even, with \<open>p\<close> significant bits: 53 for binary64 (Python
  floats, float64 arrays) and 24 for binary32 (float32 arrays). The exponent range is not
  bounded, so the functions agree with IEEE arithmetic wherever the result is a normal
  number, which is where the script's data lives.
\<close>

fun bit_length :: "nat \<Rightarrow> nat" where
  "bit_length n = (if n = 0 then 0 else Suc (bit_length (n div 2)))"

declare bit_length.simps [simp del]

definition ilog2 :: "real \<Rightarrow> int" where
  "ilog2 x =
     (if 1 \<le> x then int (bit_length (nat \<lfloor>x\<rfloor>)) - 1
      else - int (bit_length (nat (\<lceil>1 / x\<rceil> - 1))))"

definition pow2 :: "int \<Rightarrow> real" where
  "pow2 e = (if 0 \<le> e then 2 ^ nat e else 1 / 2 ^ nat (- e))"

definition round_half_even :: "real \<Rightarrow> int" where
  "round_half_even x =
     (let f = \<lfloor>x\<rfloor>; d = x - of_int f
      in if d < 1 / 2 then f else if 1 / 2 < d then f + 1 else if even f then f else f + 1)"

definition round_to_bits :: "nat \<Rightarrow> rounding" where
  "round_to_bits p x =
     (if x = 0 then 0
      else let q = pow2 (ilog2 \<bar>x\<bar> - (int p - 1)) in of_int (round_half_even (x / q)) * q)"

definition binary64 :: rounding where
  "binary64 = round_to_bits 53"

definition binary32 :: rounding where
  "binary32 = round_to_bits 24"

definition exact :: rounding where
  "exact x = x"

section \<open>The loaded layers and the gap filler\<close>

text \<open>
  The ten scaled grids the script holds after "Load data in memory" (lines 71 to 80):
  topsoil (\<open>T_\<close>) and subsoil (\<open>S_\<close>) sand, silt, clay, organic carbon and bulk density.
\<close>

record 'i layers =
  T_sand :: "'i grid"
  T_silt :: "'i grid"
  T_clay :: "'i grid"
  T_oc :: "'i grid"
  T_bulkden :: "'i grid"
  S_sand :: "'i grid"
  S_silt :: "'i grid"
  S_clay :: "'i grid"
  S_oc :: "'i grid"
  S_bulkden :: "'i grid"

text \<open>
  Lines 89 to 91:
  \<^verbatim>\<open>sand_test = S_sand.where((S_sand+S_silt+S_clay) >= 0.9, other=T_sand)\<close>,
  \<^verbatim>\<open>clay_test = S_clay.where((sand_test+S_silt+S_clay) >= 0.9, other=T_clay)\<close>,
  \<^verbatim>\<open>silt_test = S_silt.where((sand_test+S_silt+clay_test) >= 0.9, other=T_silt)\<close>.
  Python adds from the left.
\<close>

definition sand_sum :: "rounding \<Rightarrow> 'i layers \<Rightarrow> 'i grid" where
  "sand_sum rnd L = gadd rnd (gadd rnd (S_sand L) (S_silt L)) (S_clay L)"

definition sand_test :: "rounding \<Rightarrow> 'i layers \<Rightarrow> 'i grid" where
  "sand_test rnd L = da_where (S_sand L) (gge rnd (sand_sum rnd L) (9 / 10)) (T_sand L)"

definition clay_sum :: "rounding \<Rightarrow> 'i layers \<Rightarrow> 'i grid" where
  "clay_sum rnd L = gadd rnd (gadd rnd (sand_test rnd L) (S_silt L)) (S_clay L)"

definition clay_test :: "rounding \<Rightarrow> 'i layers \<Rightarrow> 'i grid" where
  "clay_test rnd L = da_where (S_clay L) (gge rnd (clay_sum rnd L) (9 / 10)) (T_clay L)"

definition silt_sum :: "rounding \<Rightarrow> 'i layers \<Rightarrow> 'i grid" where
  "silt_sum rnd L = gadd rnd (gadd rnd (sand_test rnd L) (S_silt L)) (clay_test rnd L)"

definition silt_test :: "rounding \<Rightarrow> 'i layers \<Rightarrow> 'i grid" where
  "silt_test rnd L = da_where (S_silt L) (gge rnd (silt_sum rnd L) (9 / 10)) (T_silt L)"

section \<open>The column compositor\<close>

text \<open>
  Lines 99 to 103: \<^verbatim>\<open>Sand = T_sand*0.3 + S_sand*0.7\<close> and the same for clay, silt, organic
  carbon and bulk density. The assignments \<^verbatim>\<open>S_sand = sand_test.copy()\<close>,
  \<^verbatim>\<open>S_clay = clay_test.copy()\<close> and \<^verbatim>\<open>S_silt = silt_test.copy()\<close> of lines 93 to 95 are
  commented out, so \<open>S_sand\<close>, \<open>S_clay\<close> and \<open>S_silt\<close> are still the grids as loaded.
\<close>

definition Sand :: "rounding \<Rightarrow> 'i layers \<Rightarrow> 'i grid" where
  "Sand rnd L = gadd rnd (gmul rnd (T_sand L) (3 / 10)) (gmul rnd (S_sand L) (7 / 10))"

definition Clay :: "rounding \<Rightarrow> 'i layers \<Rightarrow> 'i grid" where
  "Clay rnd L = gadd rnd (gmul rnd (T_clay L) (3 / 10)) (gmul rnd (S_clay L) (7 / 10))"

definition Silt :: "rounding \<Rightarrow> 'i layers \<Rightarrow> 'i grid" where
  "Silt rnd L = gadd rnd (gmul rnd (T_silt L) (3 / 10)) (gmul rnd (S_silt L) (7 / 10))"

definition Organic :: "rounding \<Rightarrow> 'i layers \<Rightarrow> 'i grid" where
  "Organic rnd L = gadd rnd (gmul rnd (T_oc L) (3 / 10)) (gmul rnd (S_oc L) (7 / 10))"

definition Bulkden :: "rounding \<Rightarrow> 'i layers \<Rightarrow> 'i grid" where
  "Bulkden rnd L = gadd rnd (gmul rnd (T_bulkden L) (3 / 10)) (gmul rnd (S_bulkden L) (7 / 10))"

section \<open>Python values, the command line and the sentinel\<close>

text \<open>
  The values the script handles besides grids: \<^verbatim>\<open>None\<close>, a float (possibly NaN) and a
  \<^verbatim>\<open>str\<close>. Attribute dictionaries map names to such values.
\<close>

datatype pyval = PyNone | PyFloat cell | PyStr string

type_synonym attr_map = "string \<rightharpoonup> pyval"

datatype py_error =
    AttributeError string
  | KeyError string
  | TypeError
  | UnboundLocalError string
  | IOError nat
  | OtherError string

definition and_then :: "py_error + 'a \<Rightarrow> ('a \<Rightarrow> py_error + 'b) \<Rightarrow> py_error + 'b" where
  "and_then m f = (case m of Inl e \<Rightarrow> Inl e | Inr x \<Rightarrow> f x)"

text \<open>
  \<^verbatim>\<open>parse_arguments\<close>: both options are declared with \<^verbatim>\<open>nargs='?'\<close>, a string default and no
  \<^verbatim>\<open>type\<close>. An option that is absent yields its default, an option given without a value
  yields \<^verbatim>\<open>None\<close> (argparse's \<^verbatim>\<open>const\<close>), and an option given with a value yields that
  text. The command line is taken as already split into the two options.
\<close>

datatype opt = Absent | Bare | Given string

record cmdline =
  cl_config :: opt
  cl_fValue :: opt

record args =
  config :: pyval
  fValue :: pyval

definition arg_value :: "string \<Rightarrow> opt \<Rightarrow> pyval" where
  "arg_value dflt given =
     (case given of Absent \<Rightarrow> PyStr dflt | Bare \<Rightarrow> PyNone | Given s \<Rightarrow> PyStr s)"

definition parse_arguments :: "cmdline \<Rightarrow> args" where
  "parse_arguments cl =
     \<lparr>config = arg_value ''config.yaml'' (cl_config cl),
      fValue = arg_value ''-9999.'' (cl_fValue cl)\<rparr>"

text \<open>
  \<^verbatim>\<open>X.fillna(value)\<close> (lines 109 to 113) by xarray's contract: a cell that is null is
  replaced by \<open>value\<close>, every other cell is kept. The result holds Python values, since
  \<open>value\<close> is whatever the caller passes.
\<close>

type_synonym 'i obj_grid = "'i \<Rightarrow> pyval"

definition as_objects :: "'i grid \<Rightarrow> 'i obj_grid" where
  "as_objects g = (\<lambda>i. PyFloat (g i))"

definition isnull :: "pyval \<Rightarrow> bool" where
  "isnull v = (case v of PyNone \<Rightarrow> True | PyFloat c \<Rightarrow> c = None | PyStr s \<Rightarrow> False)"

definition fillna :: "'i obj_grid \<Rightarrow> pyval \<Rightarrow> 'i obj_grid" where
  "fillna g v = (\<lambda>i. if isnull (g i) then v else g i)"

section \<open>Datasets and their attributes\<close>

text \<open>
  The input dataset \<^verbatim>\<open>hwsd_data\<close> holds named floating-point grids and dataset-level
  attributes. An output variable is a grid of Python values with its own attributes.
\<close>

record 'i dataset =
  data_vars :: "string \<rightharpoonup> 'i grid"
  attrs :: attr_map

record 'i data_array =
  cells :: "'i obj_grid"
  da_attrs :: attr_map

record 'i out_dataset =
  out_vars :: "string \<rightharpoonup> 'i data_array"
  out_attrs :: attr_map

text \<open>
  \<^verbatim>\<open>hwsd_data.T_SAND\<close>: attribute access on the dataset raises \<^verbatim>\<open>AttributeError\<close> when it has
  no such variable.
\<close>

definition get_var :: "'i dataset \<Rightarrow> string \<Rightarrow> py_error + 'i grid" where
  "get_var ds name =
     (case data_vars ds name of None \<Rightarrow> Inl (AttributeError name) | Some g \<Rightarrow> Inr g)"

text \<open>
  Lines 71 to 80, in the order of the script: the texture and organic-carbon grids are
  divided by \<^verbatim>\<open>100.\<close>, the bulk densities are multiplied by \<^verbatim>\<open>1000.\<close>.
\<close>

definition load_data :: "rounding \<Rightarrow> 'i dataset \<Rightarrow> py_error + 'i layers" where
  "load_data rnd hwsd_data =
     and_then (get_var hwsd_data ''T_SAND'') (\<lambda>t_sand.
     and_then (get_var hwsd_data ''T_SILT'') (\<lambda>t_silt.
     and_then (get_var hwsd_data ''T_CLAY'') (\<lambda>t_clay.
     and_then (get_var hwsd_data ''T_OC'') (\<lambda>t_oc.
     and_then (get_var hwsd_data ''T_BULK_DEN'') (\<lambda>t_bulkden.
     and_then (get_var hwsd_data ''S_SAND'') (\<lambda>s_sand.
     and_then (get_var hwsd_data ''S_SILT'') (\<lambda>s_silt.
     and_then (get_var hwsd_data ''S_CLAY'') (\<lambda>s_clay.
     and_then (get_var hwsd_data ''S_OC'') (\<lambda>s_oc.
     and_then (get_var hwsd_data ''S_BULK_DEN'') (\<lambda>s_bulkden.
       Inr \<lparr>T_sand = gdiv rnd t_sand 100,
            T_silt = gdiv rnd t_silt 100,
            T_clay = gdiv rnd t_clay 100,
            T_oc = gdiv rnd t_oc 100,
            T_bulkden = gmul rnd t_bulkden 1000,
            S_sand = gdiv rnd s_sand 100,
            S_silt = gdiv rnd s_silt 100,
            S_clay = gdiv rnd s_clay 100,
            S_oc = gdiv rnd s_oc 100,
            S_bulkden = gmul rnd s_bulkden 1000\<rparr>))))))))))"

text \<open>
  Lines 116 to 127: the attributes common to all variables, then
  \<^verbatim>\<open>X.assign_attrs(long_name=..., **attrs)\<close>, which updates the variable's attributes with
  the given ones. The result of the arithmetic of lines 99 to 103 carries no attributes
  (xarray drops them in arithmetic), and \<^verbatim>\<open>fillna\<close> keeps what is there.
\<close>

definition common_attrs :: "pyval \<Rightarrow> attr_map" where
  "common_attrs fv =
     [''units'' \<mapsto> PyStr ''-'',
      ''comment'' \<mapsto> PyStr ''Column of soil between 0 and 100 cm.'',
      ''_FillValue'' \<mapsto> fv]"

definition assign_attrs :: "'i data_array \<Rightarrow> attr_map \<Rightarrow> 'i data_array" where
  "assign_attrs da new = da\<lparr>da_attrs := da_attrs da ++ new\<rparr>"

definition filled :: "'i grid \<Rightarrow> pyval \<Rightarrow> 'i data_array" where
  "filled g fv = \<lparr>cells = fillna (as_objects g) fv, da_attrs = Map.empty\<rparr>"

definition described :: "'i grid \<Rightarrow> pyval \<Rightarrow> string \<Rightarrow> 'i data_array" where
  "described g fv long_name =
     assign_attrs (filled g fv) ((common_attrs fv)(''long_name'' \<mapsto> PyStr long_name))"

text \<open>Line 130, with line 127 for the unit of the bulk density.\<close>

definition output_vars :: "rounding \<Rightarrow> 'i layers \<Rightarrow> pyval \<Rightarrow> (string \<rightharpoonup> 'i data_array)" where
  "output_vars rnd L fv =
     [''SAND'' \<mapsto> described (Sand rnd L) fv ''soil sand fraction'',
      ''CLAY'' \<mapsto> described (Clay rnd L) fv ''soil clay fraction'',
      ''SILT'' \<mapsto> described (Silt rnd L) fv ''soil silt fraction'',
      ''OC'' \<mapsto> described (Organic rnd L) fv ''soil organic carbon'',
      ''BULK_DEN'' \<mapsto>
         assign_attrs (described (Bulkden rnd L) fv ''soil bulk density'')
           [''units'' \<mapsto> PyStr ''kg m-3'']]"

text \<open>
  Lines 133 to 149: the dataset attributes. \<^verbatim>\<open>new_attrs[k]\<close> raises \<^verbatim>\<open>KeyError\<close> when the
  key is absent, and \<^verbatim>\<open>"..." + v\<close> raises \<^verbatim>\<open>TypeError\<close> when \<open>v\<close> is not a string.
  \<open>cur_time\<close> is the text \<^verbatim>\<open>datetime.now(timezone.utc).strftime(...)\<close> returns, the clock
  reading of the run.
\<close>

definition getitem :: "attr_map \<Rightarrow> string \<Rightarrow> py_error + pyval" where
  "getitem d k = (case d k of None \<Rightarrow> Inl (KeyError k) | Some v \<Rightarrow> Inr v)"

definition str_plus :: "string \<Rightarrow> pyval \<Rightarrow> py_error + pyval" where
  "str_plus s v = (case v of PyStr t \<Rightarrow> Inr (PyStr (s @ t)) | _ \<Rightarrow> Inl TypeError)"

definition new_attrs :: "attr_map \<Rightarrow> string \<Rightarrow> py_error + attr_map" where
  "new_attrs src cur_time =
     and_then (getitem src ''creator'') (\<lambda>creator.
     let a1 = src(''original_creator'' \<mapsto> creator) in
     and_then (getitem a1 ''institution'') (\<lambda>institution.
     let a2 = a1(''original_institution'' \<mapsto> institution) in
     and_then (getitem a2 ''processing'') (\<lambda>processing.
     and_then (str_plus ''The source data was created with this processing.\<newline> '' processing)
       (\<lambda>original_processing.
     let a3 = a2(''original_processing'' \<mapsto> original_processing,
                 ''modified'' \<mapsto> PyStr (''Claire Carouge, '' @ cur_time),
                 ''institution'' \<mapsto> PyStr ''CLEX, UNSW'',
                 ''creator'' \<mapsto> PyStr ''Claire Carouge'',
                 ''creator_email'' \<mapsto> PyStr ''c.carouge@unsw.edu.au'',
                 ''source'' \<mapsto> PyStr ''3x3minute regridded HWSD'',
                 ''title'' \<mapsto> PyStr ''Whole soil column 3x3minute regridded HWSD'',
                 ''processing'' \<mapsto> PyStr (''Weighted average of the top soil and subsoil data by the height of the top soil column and subsoil soil column.\<newline> '' @ ''All parameters are output in one netcdf file.\<newline>'')) in
     and_then (getitem a3 ''history'') (\<lambda>history.
     and_then (str_plus ''Weighted average with HWSD_total_column.py\<newline> '' history)
       (\<lambda>new_history. Inr (a3(''history'' \<mapsto> new_history))))))))"

section \<open>Reading the configuration and the input files\<close>

text \<open>
  A YAML document is a mapping from keys to values or something else (an empty file,
  a list, a scalar). The values the script uses are a text (\<open>path\<close>), a list of texts
  (\<open>soil_vars\<close>) and, once line 40 has run, a \<^verbatim>\<open>pathlib.Path\<close>.
\<close>

datatype yval = YStr string | YList "string list" | YPath string

datatype ydoc = NotAMapping | YMap "string \<rightharpoonup> yval"

type_synonym conf = "string \<rightharpoonup> yval"

definition ENOENT :: nat where
  "ENOENT = 2"

text \<open>
  Line 40, \<^verbatim>\<open>config['path'] = pathlib.Path(config['path'])\<close>. The local variable \<open>config\<close>
  is bound only when the \<^verbatim>\<open>try\<close> body has run to its end: \<open>None\<close> is the unbound variable,
  and reading it raises \<^verbatim>\<open>UnboundLocalError\<close>.
\<close>

definition set_path :: "ydoc option \<Rightarrow> py_error + conf" where
  "set_path config_var =
     (case config_var of
        None \<Rightarrow> Inl (UnboundLocalError ''config'')
      | Some NotAMapping \<Rightarrow> Inl TypeError
      | Some (YMap m) \<Rightarrow>
          (case m ''path'' of
             None \<Rightarrow> Inl (KeyError ''path'')
           | Some (YStr p) \<Rightarrow> Inr (m(''path'' \<mapsto> YPath p))
           | Some (YPath p) \<Rightarrow> Inr (m(''path'' \<mapsto> YPath p))
           | Some (YList l) \<Rightarrow> Inl TypeError))"

text \<open>
  \<^verbatim>\<open>read_config\<close>. The file system \<open>fs\<close> gives, for a file name, what the \<^verbatim>\<open>try\<close> body
  (\<^verbatim>\<open>open\<close> and \<^verbatim>\<open>yaml.load\<close>) does: the document, or the exception raised. Only \<^verbatim>\<open>IOError\<close>
  is caught; with \<^verbatim>\<open>errno.ENOENT\<close> a warning is printed and the function goes on, any other
  is raised again. The result is the printed lines and the value returned or the
  exception that leaves the function.
\<close>

definition read_config ::
  "(string \<Rightarrow> py_error + ydoc) \<Rightarrow> pyval \<Rightarrow> string list \<times> (py_error + conf)" where
  "read_config fs conffile =
     (case conffile of
        PyStr name \<Rightarrow>
          (case fs name of
             Inr doc \<Rightarrow> ([], set_path (Some doc))
           | Inl (IOError e) \<Rightarrow>
               if e = ENOENT
               then ([''warning: Configuration file '' @ name @ '' not found!''], set_path None)
               else ([], Inl (IOError e))
           | Inl err \<Rightarrow> ([], Inl err))
      | _ \<Rightarrow> ([], Inl TypeError))"

text \<open>
  \<^verbatim>\<open>readin\<close>: one file \<^verbatim>\<open>{tt}_{soilv}.nc4\<close> in the configured directory per layer prefix
  and variable, opened together by \<^verbatim>\<open>xr.open_mfdataset\<close>, which is the parameter \<open>store\<close>.
  A path is a directory and a file name. Iterating over a text yields its characters.
\<close>

type_synonym path = "string \<times> string"

definition soil_var_names :: "yval \<Rightarrow> py_error + string list" where
  "soil_var_names v =
     (case v of YList l \<Rightarrow> Inr l | YStr s \<Rightarrow> Inr (map (\<lambda>c. [c]) s) | YPath p \<Rightarrow> Inl TypeError)"

definition conf_get :: "conf \<Rightarrow> string \<Rightarrow> py_error + yval" where
  "conf_get c k = (case c k of None \<Rightarrow> Inl (KeyError k) | Some v \<Rightarrow> Inr v)"

definition conf_dir :: "conf \<Rightarrow> py_error + string" where
  "conf_dir c =
     and_then (conf_get c ''path'')
       (\<lambda>v. case v of YPath p \<Rightarrow> Inr p | _ \<Rightarrow> Inl TypeError)"

definition flist :: "conf \<Rightarrow> py_error + path list" where
  "flist c =
     and_then (conf_get c ''soil_vars'') (\<lambda>v.
     and_then (soil_var_names v) (\<lambda>soil_vars.
     if soil_vars = [] then Inr []
     else and_then (conf_dir c) (\<lambda>dir.
       Inr (concat (map (\<lambda>tt. map (\<lambda>soilv. (dir, tt @ ''_'' @ soilv @ ''.nc4'')) soil_vars)
                      [''T'', ''S''])))))"

definition readin ::
  "(path list \<Rightarrow> py_error + 'i dataset) \<Rightarrow> conf \<Rightarrow> py_error + 'i dataset" where
  "readin store c = and_then (flist c) store"

section \<open>The program\<close>

text \<open>
  What the script hands to \<^verbatim>\<open>to_netcdf\<close> (line 155): the path, the dataset and the encoding
  of each of its variables.
\<close>

record encoding =
  enc_dtype :: string
  enc_zlib :: bool
  enc_complevel :: nat

record 'i written =
  w_path :: path
  w_dataset :: "'i out_dataset"
  w_encoding :: "string \<rightharpoonup> encoding"

definition encod :: encoding where
  "encod = \<lparr>enc_dtype = ''float64'', enc_zlib = True, enc_complevel = 5\<rparr>"

text \<open>
  The \<^verbatim>\<open>__main__\<close> block, lines 58 to 155, as a function of what the run reads from outside:
  the floating-point format of the data, the command line, the file system, the array
  store and the clock. It returns the lines \<^verbatim>\<open>read_config\<close> printed (the progress messages
  of the block carry no data and are left out) and the dataset written or the exception
  that ends the run. The gap-filled grids of lines 89 to 91 are computed and not used
  again.
\<close>

definition main ::
  "rounding \<Rightarrow> cmdline \<Rightarrow> (string \<Rightarrow> py_error + ydoc) \<Rightarrow> (path list \<Rightarrow> py_error + 'i dataset)
     \<Rightarrow> string \<Rightarrow> string list \<times> (py_error + 'i written)" where
  "main rnd cl fs store cur_time =
     (let args = parse_arguments cl;
          rc = read_config fs (config args)
      in (fst rc,
          and_then (snd rc) (\<lambda>cfg.
          and_then (readin store cfg) (\<lambda>hwsd_data.
          and_then (load_data rnd hwsd_data) (\<lambda>L.
          let sand_t = sand_test rnd L;
              clay_t = clay_test rnd L;
              silt_t = silt_test rnd L;
              vars = output_vars rnd L (fValue args)
          in and_then (new_attrs (attrs hwsd_data) cur_time) (\<lambda>na.
             and_then (conf_dir cfg) (\<lambda>dir.
               Inr \<lparr>w_path = (dir, ''HWSD_soilcomposition_test.nc''),
                    w_dataset = \<lparr>out_vars = vars, out_attrs = na\<rparr>,
                    w_encoding = (\<lambda>var. map_option (\<lambda>x. encod) (vars var))\<rparr>)))))))"

section \<open>Observing a run\<close>

text \<open>
  Reading a cell or an attribute of a variable of the dataset written, and a run's result
  with the attribute \<open>modified\<close> of the dataset left out.
\<close>

definition out_cell :: "'i written \<Rightarrow> string \<Rightarrow> 'i \<Rightarrow> pyval option" where
  "out_cell w var i = map_option (\<lambda>da. cells da i) (out_vars (w_dataset w) var)"


definition forget_modified :: "'i written \<Rightarrow> 'i written" where
  "forget_modified w =
     w\<lparr>w_dataset :=
          (w_dataset w)\<lparr>out_attrs := (out_attrs (w_dataset w))(''modified'' := None)\<rparr>\<rparr>"

section \<open>Concrete inputs\<close>

text \<open>
  One-cell grids (the index type is \<open>unit\<close>). \<open>example_layers rnd\<close> is the cell with subsoil
  sand, silt, clay 0.5, 0.1, 0.1 and topsoil 0.6, 0.2, 0.2, each decimal value rounded
  into the format \<open>rnd\<close>; its topsoil organic carbon is missing. In \<open>missing_sand_layers\<close>
  the subsoil sand and the topsoil sand and clay are missing.
\<close>

definition example_layers :: "rounding \<Rightarrow> unit layers" where
  "example_layers rnd =
     \<lparr>T_sand = (\<lambda>i. Some (rnd (6 / 10))),
      T_silt = (\<lambda>i. Some (rnd (2 / 10))),
      T_clay = (\<lambda>i. Some (rnd (2 / 10))),
      T_oc = (\<lambda>i. None),
      T_bulkden = (\<lambda>i. Some (rnd 1500)),
      S_sand = (\<lambda>i. Some (rnd (5 / 10))),
      S_silt = (\<lambda>i. Some (rnd (1 / 10))),
      S_clay = (\<lambda>i. Some (rnd (1 / 10))),
      S_oc = (\<lambda>i. Some (rnd (2 / 100))),
      S_bulkden = (\<lambda>i. Some (rnd 1250))\<rparr>"

definition missing_sand_layers :: "unit layers" where
  "missing_sand_layers =
     \<lparr>T_sand = (\<lambda>i. None),
      T_silt = (\<lambda>i. Some (2 / 10)),
      T_clay = (\<lambda>i. None),
      T_oc = (\<lambda>i. None),
      T_bulkden = (\<lambda>i. None),
      S_sand = (\<lambda>i. None),
      S_silt = (\<lambda>i. Some (5 / 10)),
      S_clay = (\<lambda>i. Some (5 / 10)),
      S_oc = (\<lambda>i. None),
      S_bulkden = (\<lambda>i. None)\<rparr>"

text \<open>
  An input dataset as the files store it: textures and organic carbon in percent, bulk
  density in its native unit. Scaled by lines 71 to 80 it gives \<open>example_layers\<close>.
\<close>

definition example_attrs :: attr_map where
  "example_attrs =
     [''creator'' \<mapsto> PyStr ''A. Author'',
      ''institution'' \<mapsto> PyStr ''Some Institute'',
      ''processing'' \<mapsto> PyStr ''Regridded.'',
      ''history'' \<mapsto> PyStr ''created'']"

definition example_dataset :: "unit dataset" where
  "example_dataset =
     \<lparr>data_vars =
        [''T_SAND'' \<mapsto> (\<lambda>i. Some 60),
         ''T_SILT'' \<mapsto> (\<lambda>i. Some 20),
         ''T_CLAY'' \<mapsto> (\<lambda>i. Some 20),
         ''T_OC'' \<mapsto> (\<lambda>i. None),
         ''T_BULK_DEN'' \<mapsto> (\<lambda>i. Some (3 / 2)),
         ''S_SAND'' \<mapsto> (\<lambda>i. Some 50),
         ''S_SILT'' \<mapsto> (\<lambda>i. Some 10),
         ''S_CLAY'' \<mapsto> (\<lambda>i. Some 10),
         ''S_OC'' \<mapsto> (\<lambda>i. Some 2),
         ''S_BULK_DEN'' \<mapsto> (\<lambda>i. Some (5 / 4))],
      attrs = example_attrs\<rparr>"

definition example_conf :: conf where
  "example_conf =
     [''path'' \<mapsto> YPath ''/data/hwsd'',
      ''soil_vars'' \<mapsto> YList [''SAND'', ''SILT'', ''CLAY'', ''OC'', ''BULK_DEN'']]"

definition example_conf_doc :: ydoc where
  "example_conf_doc =
     YMap [''path'' \<mapsto> YStr ''/data/hwsd'',
           ''soil_vars'' \<mapsto> YList [''SAND'', ''SILT'', ''CLAY'', ''OC'', ''BULK_DEN'']]"

definition example_fs :: "string \<Rightarrow> py_error + ydoc" where
  "example_fs name =
     (if name = ''config.yaml'' then Inr example_conf_doc else Inl (IOError ENOENT))"

definition absent_fs :: "string \<Rightarrow> py_error + ydoc" where
  "absent_fs name = Inl (IOError ENOENT)"

definition unreadable_fs :: "string \<Rightarrow> py_error + ydoc" where
  "unreadable_fs name = Inl (IOError 13)"

definition example_files :: "path list" where
  "example_files =
     [(''/data/hwsd'', ''T_SAND.nc4''), (''/data/hwsd'', ''T_SILT.nc4''),
      (''/data/hwsd'', ''T_CLAY.nc4''), (''/data/hwsd'', ''T_OC.nc4''),
      (''/data/hwsd'', ''T_BULK_DEN.nc4''),
      (''/data/hwsd'', ''S_SAND.nc4''), (''/data/hwsd'', ''S_SILT.nc4''),
      (''/data/hwsd'', ''S_CLAY.nc4''), (''/data/hwsd'', ''S_OC.nc4''),
      (''/data/hwsd'', ''S_BULK_DEN.nc4'')]"

definition example_store :: "path list \<Rightarrow> py_error + unit dataset" where
  "example_store files =
     (if files = example_files then Inr example_dataset
      else Inl (OtherError ''no files to open''))"

definition default_cmdline :: cmdline where
  "default_cmdline = \<lparr>cl_config = Absent, cl_fValue = Absent\<rparr>"

definition clock_a :: string where
  "clock_a = ''Wed 04 Nov 2026 12:00:00 UTC''"

definition clock_b :: string where
  "clock_b = ''Wed 04 Nov 2026 12:00:01 UTC''"

text \<open>A grid of two cells, a zero and a missing one.\<close>

definition zero_and_gap :: "bool grid" where
  "zero_and_gap = (\<lambda>i. if i then Some 0 else None)"

section \<open>Auxiliary facts\<close>

subsection \<open>The rounding functions\<close>

text \<open>
  \<open>round_to_bits p\<close> returns a value within half a unit in the last of \<open>p\<close> places of its
  argument: the relative error is at most \<open>2\<^sup>-\<^sup>p\<close>.
\<close>

lemma round_half_even_error: "\<bar>real_of_int (round_half_even x) - x\<bar> \<le> 1 / 2"
  unfolding round_half_even_def Let_def by (simp; linarith)

lemma bit_length_bounds:
  "0 < n \<Longrightarrow> 2 ^ (bit_length n - 1) \<le> n \<and> n < 2 ^ bit_length n"
proof (induction n rule: bit_length.induct)
  case (1 n)
  show ?case
  proof (cases "n div 2 = 0")
    case True
    with "1.prems" have "n = 1" by (simp add: div_eq_0_iff)
    then show ?thesis by (simp add: bit_length.simps)
  next
    case False
    then have pos: "0 < n div 2" by simp
    from "1.IH" [OF _ pos] "1.prems"
    have ih: "2 ^ (bit_length (n div 2) - 1) \<le> n div 2" "n div 2 < 2 ^ bit_length (n div 2)"
      by simp_all
    have bl: "bit_length n = Suc (bit_length (n div 2))"
      using "1.prems" by (simp add: bit_length.simps [of n])
    have blpos: "0 < bit_length (n div 2)"
      using pos by (simp add: bit_length.simps [of "n div 2"])
    have "2 ^ (bit_length n - 1) = 2 * 2 ^ (bit_length (n div 2) - 1)"
      using bl blpos by (cases "bit_length (n div 2)") simp_all
    also have "\<dots> \<le> 2 * (n div 2)" using ih(1) by simp
    also have "\<dots> \<le> n" by simp
    finally have lo: "2 ^ (bit_length n - 1) \<le> n" .
    have "n < 2 * (n div 2) + 2" by presburger
    also have "\<dots> \<le> 2 * 2 ^ bit_length (n div 2)" using ih(2) by simp
    finally have hi: "n < 2 ^ bit_length n" using bl by simp
    from lo hi show ?thesis by blast
  qed
qed

lemma bit_length_pos: "0 < n \<Longrightarrow> 0 < bit_length n"
  by (simp add: bit_length.simps [of n])

lemma pow2_pos: "0 < pow2 e"
  by (simp add: pow2_def)

lemma pow2_nat: "pow2 (int n) = 2 ^ n"
  by (simp add: pow2_def)

lemma pow2_neg_nat: "pow2 (- int n) = 1 / 2 ^ n"
  by (cases "n = 0") (simp_all add: pow2_def)

lemma pow2_powr: "pow2 e = 2 powr (real_of_int e)"
proof (cases "0 \<le> e")
  case True
  then show ?thesis
    by (simp add: pow2_def powr_realpow [symmetric])
next
  case False
  then have "pow2 e = 1 / 2 ^ nat (- e)" by (simp add: pow2_def)
  also have "\<dots> = 2 powr (- real (nat (- e)))"
    by (simp add: powr_minus powr_realpow divide_inverse)
  also have "- real (nat (- e)) = real_of_int e" using False by simp
  finally show ?thesis .
qed

lemma pow2_add: "pow2 (a + b) = pow2 a * pow2 b"
  by (simp add: pow2_powr powr_add)

lemma ilog2_bounds:
  assumes "0 < x"
  shows "pow2 (ilog2 x) \<le> x \<and> x < 2 * pow2 (ilog2 x)"
proof (cases "1 \<le> x")
  case True
  define n where "n = nat \<lfloor>x\<rfloor>"
  have npos: "0 < n" using True by (simp add: n_def)
  have nx: "real n \<le> x" "x < real n + 1"
    using True by (simp_all add: n_def)
  from bit_length_bounds [OF npos]
  have b: "2 ^ (bit_length n - 1) \<le> n" "n < 2 ^ bit_length n" by simp_all
  have e: "ilog2 x = int (bit_length n - 1)"
    using True bit_length_pos [OF npos] by (simp add: ilog2_def n_def)
  have lo: "pow2 (ilog2 x) \<le> x"
  proof -
    have "pow2 (ilog2 x) = 2 ^ (bit_length n - 1)" by (simp add: e pow2_nat)
    also have "\<dots> \<le> real n" using b(1) by (metis of_nat_le_iff of_nat_numeral of_nat_power)
    finally show ?thesis using nx(1) by linarith
  qed
  have hi: "x < 2 * pow2 (ilog2 x)"
  proof -
    have "real n + 1 \<le> 2 ^ bit_length n"
      using b(2) by (metis Suc_leI of_nat_Suc of_nat_le_iff of_nat_numeral of_nat_power add.commute)
    moreover have "(2::real) ^ bit_length n = 2 * 2 ^ (bit_length n - 1)"
      using bit_length_pos [OF npos] by (cases "bit_length n") simp_all
    ultimately show ?thesis using nx(2) by (simp add: e pow2_nat)
  qed
  from lo hi show ?thesis by blast
next
  case False
  define y where "y = 1 / x"
  define m where "m = nat (\<lceil>y\<rceil> - 1)"
  have y1: "1 < y" using False assms by (simp add: y_def)
  have mpos: "0 < m" using y1 by (simp add: m_def)
  have my: "real m < y" "y \<le> real m + 1"
    using y1 by (simp_all add: m_def) linarith+
  from bit_length_bounds [OF mpos]
  have b: "2 ^ (bit_length m - 1) \<le> m" "m < 2 ^ bit_length m" by simp_all
  have e: "ilog2 x = - int (bit_length m)"
    using False by (simp add: ilog2_def m_def y_def)
  have k: "(2::real) ^ bit_length m = 2 * 2 ^ (bit_length m - 1)"
    using bit_length_pos [OF mpos] by (cases "bit_length m") simp_all
  have ylo: "2 ^ (bit_length m - 1) < y"
  proof -
    have "(2::real) ^ (bit_length m - 1) \<le> real m"
      using b(1) by (metis of_nat_le_iff of_nat_numeral of_nat_power)
    then show ?thesis using my(1) by linarith
  qed
  have yhi: "y \<le> 2 ^ bit_length m"
  proof -
    have "real m + 1 \<le> 2 ^ bit_length m"
      using b(2) by (metis Suc_leI of_nat_Suc of_nat_le_iff of_nat_numeral of_nat_power add.commute)
    then show ?thesis using my(2) by linarith
  qed
  have p: "pow2 (ilog2 x) = 1 / 2 ^ bit_length m"
    by (simp add: e pow2_neg_nat)
  have yx: "1 / y = x"
    using assms by (simp add: y_def)
  have lo: "pow2 (ilog2 x) \<le> x"
  proof -
    note p
    also have "1 / 2 ^ bit_length m \<le> 1 / y"
      using yhi y1 by (simp add: frac_le)
    also note yx
    finally show ?thesis .
  qed
  have hi: "x < 2 * pow2 (ilog2 x)"
  proof -
    note yx [symmetric]
    also have "1 / y < 1 / 2 ^ (bit_length m - 1)"
      using ylo by (simp add: frac_less2)
    also have "\<dots> = 2 * (1 / 2 ^ bit_length m)"
      using k by simp
    also have "\<dots> = 2 * pow2 (ilog2 x)"
      by (simp only: p)
    finally show ?thesis .
  qed
  from lo hi show ?thesis by blast
qed

lemma round_to_bits_error:
  assumes "0 < p"
  shows "\<bar>round_to_bits p x - x\<bar> \<le> \<bar>x\<bar> / 2 ^ p"
proof (cases "x = 0")
  case True
  then show ?thesis by (simp add: round_to_bits_def)
next
  case False
  define e where "e = ilog2 \<bar>x\<bar>"
  define q where "q = pow2 (e - (int p - 1))"
  have qpos: "0 < q" by (simp add: q_def pow2_pos)
  have r: "round_to_bits p x = of_int (round_half_even (x / q)) * q"
    using False by (simp add: round_to_bits_def Let_def q_def e_def)
  have "round_to_bits p x - x = (real_of_int (round_half_even (x / q)) - x / q) * q"
    using qpos by (simp add: r field_simps)
  then have "\<bar>round_to_bits p x - x\<bar> = \<bar>real_of_int (round_half_even (x / q)) - x / q\<bar> * q"
    using qpos by (simp add: abs_mult)
  also have "\<dots> \<le> (1 / 2) * q"
    using round_half_even_error [of "x / q"] qpos by (simp add: mult_right_mono)
  finally have err: "\<bar>round_to_bits p x - x\<bar> \<le> q / 2" by simp
  have "pow2 e = pow2 (e - (int p - 1)) * pow2 (int p - 1)"
    by (simp add: pow2_add [symmetric])
  also have "pow2 (int p - 1) = 2 ^ (p - 1)"
    using assms pow2_nat [of "p - 1"] by (simp add: of_nat_diff)
  finally have qe: "pow2 e = q * 2 ^ (p - 1)" by (simp add: q_def)
  have "pow2 e \<le> \<bar>x\<bar>"
    using ilog2_bounds [of "\<bar>x\<bar>"] False by (simp add: e_def)
  then have "q * 2 ^ (p - 1) \<le> \<bar>x\<bar>"
    unfolding qe .
  then have "q * 2 ^ p \<le> 2 * \<bar>x\<bar>"
    using assms by (cases p) simp_all
  then have "q / 2 \<le> \<bar>x\<bar> / 2 ^ p"
    by (simp add: field_simps)
  with err show ?thesis by linarith
qed

lemma binary64_error: "\<bar>binary64 x - x\<bar> \<le> \<bar>x\<bar> / 2 ^ 53"
  unfolding binary64_def by (rule round_to_bits_error) simp

lemma binary32_error: "\<bar>binary32 x - x\<bar> \<le> \<bar>x\<bar> / 2 ^ 24"
  unfolding binary32_def by (rule round_to_bits_error) simp

subsection \<open>Values and cells\<close>

lemmas b64_defs = binary64_def binary32_def round_to_bits_def ilog2_def pow2_def round_half_even_def bit_length.simps Let_def

text \<open>The binary64 values of some literals, as Python's \<^verbatim>\<open>Fraction\<close> prints them.\<close>

lemma binary64_tenth: "binary64 (1 / 10) = 3602879701896397 / 36028797018963968"
  by (simp add: b64_defs)

lemma binary64_nine_tenths: "binary64 (9 / 10) = 8106479329266893 / 9007199254740992"
  by (simp add: b64_defs)

lemma binary64_half: "binary64 (1 / 2) = 1 / 2"
  by (simp add: b64_defs)

lemma binary64_consts: "binary64 100 = 100" "binary64 1000 = 1000"
  by (simp_all add: b64_defs)

lemma binary32_consts: "binary32 100 = 100" "binary32 1000 = 1000"
  by (simp_all add: b64_defs)

lemma binary32_tenth: "binary32 (1 / 10) = 13421773 / 134217728"
  by (simp add: b64_defs)

lemma exact_consts: "exact 100 = 100" "exact 1000 = 1000"
  by (simp_all add: exact_def)

lemma fadd_None: "fadd rnd None b = None" "fadd rnd a None = None"
  by (simp_all add: fadd_def split: option.splits)

lemma fmul_None: "fmul rnd None c = None"
  by (simp add: fmul_def)

lemma fge_None: "\<not> fge rnd None c"
  by (simp add: fge_def)

lemma fillna_missing: "g i = None \<Longrightarrow> fillna (as_objects g) fv i = fv"
  by (simp add: fillna_def as_objects_def isnull_def)


lemma sand_test_cell:
  "sand_test rnd L i =
     (if fge rnd (fadd rnd (fadd rnd (S_sand L i) (S_silt L i)) (S_clay L i)) (9 / 10)
      then S_sand L i else T_sand L i)"
  by (simp add: sand_test_def sand_sum_def gadd_def gge_def da_where_def)

lemma clay_test_cell:
  "clay_test rnd L i =
     (if fge rnd (fadd rnd (fadd rnd (sand_test rnd L i) (S_silt L i)) (S_clay L i)) (9 / 10)
      then S_clay L i else T_clay L i)"
  by (simp add: clay_test_def clay_sum_def gadd_def gge_def da_where_def)

lemma silt_test_cell:
  "silt_test rnd L i =
     (if fge rnd (fadd rnd (fadd rnd (sand_test rnd L i) (S_silt L i)) (clay_test rnd L i)) (9 / 10)
      then S_silt L i else T_silt L i)"
  by (simp add: silt_test_def silt_sum_def gadd_def gge_def da_where_def)

lemma composite_cells:
  "Sand rnd L i = fadd rnd (fmul rnd (T_sand L i) (3 / 10)) (fmul rnd (S_sand L i) (7 / 10))"
  "Clay rnd L i = fadd rnd (fmul rnd (T_clay L i) (3 / 10)) (fmul rnd (S_clay L i) (7 / 10))"
  "Silt rnd L i = fadd rnd (fmul rnd (T_silt L i) (3 / 10)) (fmul rnd (S_silt L i) (7 / 10))"
  "Organic rnd L i = fadd rnd (fmul rnd (T_oc L i) (3 / 10)) (fmul rnd (S_oc L i) (7 / 10))"
  "Bulkden rnd L i =
     fadd rnd (fmul rnd (T_bulkden L i) (3 / 10)) (fmul rnd (S_bulkden L i) (7 / 10))"
  by (simp_all add: Sand_def Clay_def Silt_def Organic_def Bulkden_def gadd_def gmul_def)

lemma output_cells:
  "map_option (\<lambda>da. cells da i) (output_vars rnd L fv ''SAND'') =
     Some (fillna (as_objects (Sand rnd L)) fv i)"
  "map_option (\<lambda>da. cells da i) (output_vars rnd L fv ''CLAY'') =
     Some (fillna (as_objects (Clay rnd L)) fv i)"
  "map_option (\<lambda>da. cells da i) (output_vars rnd L fv ''SILT'') =
     Some (fillna (as_objects (Silt rnd L)) fv i)"
  "map_option (\<lambda>da. cells da i) (output_vars rnd L fv ''OC'') =
     Some (fillna (as_objects (Organic rnd L)) fv i)"
  "map_option (\<lambda>da. cells da i) (output_vars rnd L fv ''BULK_DEN'') =
     Some (fillna (as_objects (Bulkden rnd L)) fv i)"
  by (simp_all add: output_vars_def described_def assign_attrs_def filled_def)


subsection \<open>The example cell through the gap filler\<close>

lemma example_exact_sand: "sand_test exact (example_layers exact) () = Some (6 / 10)"
  by (simp add: sand_test_cell example_layers_def exact_def fadd_def fge_def)

lemma example_exact_clay: "clay_test exact (example_layers exact) () = Some (2 / 10)"
  by (simp add: clay_test_cell sand_test_cell example_layers_def exact_def fadd_def fge_def)

lemma example_exact_silt: "silt_test exact (example_layers exact) () = Some (1 / 10)"
  by (simp add: silt_test_cell clay_test_cell sand_test_cell example_layers_def exact_def
      fadd_def fge_def)

lemma example_exact_sums:
  "sand_sum exact (example_layers exact) () = Some (7 / 10)"
  "clay_sum exact (example_layers exact) () = Some (8 / 10)"
  "silt_sum exact (example_layers exact) () = Some (9 / 10)"
  by (simp_all add: sand_sum_def clay_sum_def silt_sum_def gadd_def sand_test_cell
      clay_test_cell example_layers_def exact_def fadd_def fge_def)

lemma example_binary64_sand:
  "sand_test binary64 (example_layers binary64) () = Some (binary64 (6 / 10))"
  by (simp add: sand_test_cell example_layers_def fadd_def fge_def b64_defs)

lemma example_binary64_clay:
  "clay_test binary64 (example_layers binary64) () = Some (binary64 (2 / 10))"
  by (simp add: clay_test_cell sand_test_cell example_layers_def fadd_def fge_def b64_defs)

lemma example_binary64_silt:
  "silt_test binary64 (example_layers binary64) () = Some (binary64 (2 / 10))"
  by (simp add: silt_test_cell clay_test_cell sand_test_cell example_layers_def fadd_def
      fge_def b64_defs)

lemma example_binary32_sand:
  "sand_test binary32 (example_layers binary32) () = Some (binary32 (6 / 10))"
  by (simp add: sand_test_cell example_layers_def fadd_def fge_def b64_defs)

lemma example_binary32_clay:
  "clay_test binary32 (example_layers binary32) () = Some (binary32 (2 / 10))"
  by (simp add: clay_test_cell sand_test_cell example_layers_def fadd_def fge_def b64_defs)

lemma example_binary32_silt:
  "silt_test binary32 (example_layers binary32) () = Some (binary32 (1 / 10))"
  by (simp add: silt_test_cell clay_test_cell sand_test_cell example_layers_def fadd_def
      fge_def b64_defs)

subsection \<open>The example run\<close>

lemma example_read_config:
  "read_config example_fs (PyStr ''config.yaml'') = ([], Inr example_conf)"
  by (simp add: read_config_def example_fs_def example_conf_doc_def example_conf_def
      set_path_def fun_upd_twist)

lemma example_flist: "flist example_conf = Inr example_files"
  by (simp add: flist_def conf_get_def conf_dir_def soil_var_names_def and_then_def
      example_conf_def example_files_def)

lemma example_load:
  "rnd 100 = 100 \<Longrightarrow> rnd 1000 = 1000 \<Longrightarrow>
   load_data rnd example_dataset = Inr (example_layers rnd)"
  by (simp add: load_data_def get_var_def and_then_def example_dataset_def example_layers_def
      gdiv_def gmul_def fdiv_def fmul_def)

lemma example_new_attrs:
  "new_attrs example_attrs t = Inr
     (example_attrs
        (''original_creator'' \<mapsto> PyStr ''A. Author'',
         ''original_institution'' \<mapsto> PyStr ''Some Institute'',
         ''original_processing'' \<mapsto>
            PyStr (''The source data was created with this processing.\<newline> '' @ ''Regridded.''),
         ''modified'' \<mapsto> PyStr (''Claire Carouge, '' @ t),
         ''institution'' \<mapsto> PyStr ''CLEX, UNSW'',
         ''creator'' \<mapsto> PyStr ''Claire Carouge'',
         ''creator_email'' \<mapsto> PyStr ''c.carouge@unsw.edu.au'',
         ''source'' \<mapsto> PyStr ''3x3minute regridded HWSD'',
         ''title'' \<mapsto> PyStr ''Whole soil column 3x3minute regridded HWSD'',
         ''processing'' \<mapsto> PyStr (''Weighted average of the top soil and subsoil data by the height of the top soil column and subsoil soil column.\<newline> '' @ ''All parameters are output in one netcdf file.\<newline>''),
         ''history'' \<mapsto> PyStr (''Weighted average with HWSD_total_column.py\<newline> '' @ ''created'')))"
  by (simp add: new_attrs_def getitem_def str_plus_def and_then_def example_attrs_def Let_def)

lemma main_run:
  assumes "snd (read_config fs (config (parse_arguments cl))) = Inr cfg"
    and "readin store cfg = Inr ds"
    and "load_data rnd ds = Inr L"
    and "new_attrs (attrs ds) t = Inr na"
    and "conf_dir cfg = Inr dir"
  shows "snd (main rnd cl fs store t) =
     Inr \<lparr>w_path = (dir, ''HWSD_soilcomposition_test.nc''),
          w_dataset =
            \<lparr>out_vars = output_vars rnd L (fValue (parse_arguments cl)), out_attrs = na\<rparr>,
          w_encoding =
            (\<lambda>var. map_option (\<lambda>x. encod)
                     (output_vars rnd L (fValue (parse_arguments cl)) var))\<rparr>"
  using assms by (simp add: main_def and_then_def Let_def)


lemma main_config_error:
  "read_config fs (config (parse_arguments cl)) = (out, Inl e) \<Longrightarrow>
   main rnd cl fs store t = (out, Inl e)"
  by (simp add: main_def and_then_def Let_def)

lemma default_args:
  "parse_arguments default_cmdline =
     \<lparr>config = PyStr ''config.yaml'', fValue = PyStr ''-9999.''\<rparr>"
  by (simp add: parse_arguments_def default_cmdline_def arg_value_def)

lemma example_main:
  assumes "rnd 100 = 100" and "rnd 1000 = 1000"
  shows "\<exists>na. new_attrs example_attrs t = Inr na \<and>
   main rnd default_cmdline example_fs example_store t =
     ([], Inr \<lparr>w_path = (''/data/hwsd'', ''HWSD_soilcomposition_test.nc''),
               w_dataset =
                 \<lparr>out_vars = output_vars rnd (example_layers rnd) (PyStr ''-9999.''),
                  out_attrs = na\<rparr>,
               w_encoding =
                 (\<lambda>var. map_option (\<lambda>x. encod)
                          (output_vars rnd (example_layers rnd) (PyStr ''-9999.'') var))\<rparr>)"
proof -
  obtain na where na: "new_attrs example_attrs t = Inr na"
    using example_new_attrs by blast
  have b: "readin example_store example_conf = Inr example_dataset"
    by (simp add: readin_def example_flist and_then_def example_store_def)
  have c: "conf_dir example_conf = Inr ''/data/hwsd''"
    by (simp add: conf_dir_def conf_get_def and_then_def example_conf_def)
  have d: "attrs example_dataset = example_attrs"
    by (simp add: example_dataset_def)
  have "fst (main rnd default_cmdline example_fs example_store t) = []"
    by (simp add: main_def Let_def default_args example_read_config)
  moreover have "snd (main rnd default_cmdline example_fs example_store t) =
     Inr \<lparr>w_path = (''/data/hwsd'', ''HWSD_soilcomposition_test.nc''),
          w_dataset =
            \<lparr>out_vars = output_vars rnd (example_layers rnd) (PyStr ''-9999.''),
             out_attrs = na\<rparr>,
          w_encoding =
            (\<lambda>var. map_option (\<lambda>x. encod)
                     (output_vars rnd (example_layers rnd) (PyStr ''-9999.'') var))\<rparr>"
    using main_run [of example_fs default_cmdline example_conf example_store example_dataset
        rnd "example_layers rnd" t na "''/data/hwsd''"]
    by (simp add: default_args example_read_config b c d na example_load [OF assms])
  ultimately show ?thesis
    using na by (simp add: prod_eq_iff)
qed

lemma new_attrs_clock:
  "map_sum id (\<lambda>a. a(''modified'' := None)) (new_attrs src t) =
   map_sum id (\<lambda>a. a(''modified'' := None)) (new_attrs src t')"
  by (simp add: new_attrs_def getitem_def str_plus_def and_then_def Let_def fun_eq_iff
      split: option.splits pyval.splits)

section \<open>Properties of the gap filler\<close>

text \<open>
  Claim C2, as amended. The three substitutions run in the order sand, clay, silt, and
  each later test adds the values already substituted to the raw subsoil values: the clay
  test uses \<open>sand_test\<close>, the silt test uses \<open>sand_test\<close> and \<open>clay_test\<close>. For the cell with
  subsoil (0.5, 0.1, 0.1) and topsoil (0.6, 0.2, 0.2) the result in exact arithmetic is
  sand 0.6, clay 0.2, silt 0.1: the sum of the raw subsoil values fails the test, and the
  silt test passes on the sum formed with the substituted sand and clay. The last sum
  sits on the threshold, so with rounding the result depends on the format: in binary32
  arithmetic it is the same, in binary64 arithmetic the result is sand 0.6, clay 0.2 and
  silt 0.2, the topsoil value.
\<close>

theorem gap_filler_steps:
  "sand_test rnd L i =
     (if fge rnd (fadd rnd (fadd rnd (S_sand L i) (S_silt L i)) (S_clay L i)) (9 / 10)
      then S_sand L i else T_sand L i) \<and>
   clay_test rnd L i =
     (if fge rnd (fadd rnd (fadd rnd (sand_test rnd L i) (S_silt L i)) (S_clay L i)) (9 / 10)
      then S_clay L i else T_clay L i) \<and>
   silt_test rnd L i =
     (if fge rnd (fadd rnd (fadd rnd (sand_test rnd L i) (S_silt L i)) (clay_test rnd L i))
           (9 / 10)
      then S_silt L i else T_silt L i) \<and>
   sand_test exact (example_layers exact) () = Some (6 / 10) \<and>
   clay_test exact (example_layers exact) () = Some (2 / 10) \<and>
   silt_test exact (example_layers exact) () = Some (1 / 10) \<and>
   sand_sum exact (example_layers exact) () = Some (7 / 10) \<and>
   clay_sum exact (example_layers exact) () = Some (8 / 10) \<and>
   silt_sum exact (example_layers exact) () = Some (9 / 10) \<and>
   sand_test binary32 (example_layers binary32) () = Some (binary32 (6 / 10)) \<and>
   clay_test binary32 (example_layers binary32) () = Some (binary32 (2 / 10)) \<and>
   silt_test binary32 (example_layers binary32) () = Some (binary32 (1 / 10)) \<and>
   sand_test binary64 (example_layers binary64) () = Some (binary64 (6 / 10)) \<and>
   clay_test binary64 (example_layers binary64) () = Some (binary64 (2 / 10)) \<and>
   silt_test binary64 (example_layers binary64) () = Some (binary64 (2 / 10))"
proof -
  note steps = sand_test_cell [of rnd L i] clay_test_cell [of rnd L i] silt_test_cell [of rnd L i]
  note in_exact = example_exact_sand example_exact_clay example_exact_silt
  note sums = example_exact_sums
  note in_binary32 = example_binary32_sand example_binary32_clay example_binary32_silt
  note in_binary64 = example_binary64_sand example_binary64_clay example_binary64_silt
  from steps in_exact sums in_binary32 in_binary64 show ?thesis by blast
qed

text \<open>
  The example of claim C2 in binary64, the arithmetic of Python floats and of float64
  arrays. The percent values 50, 10, 10 and 60, 20, 20 of \<open>example_dataset\<close> are scaled
  to the binary64 values of 0.5, 0.1, 0.1 and 0.6, 0.2, 0.2. The third sum,
  0.6 + 0.1 + 0.2 added from the left, is 0.899999999999999911182158029987 and the literal
  0.9 is 0.900000000000000022204460492503, so the test fails and silt takes the topsoil
  value 0.2, not the subsoil value 0.1.
\<close>

theorem spec_example_fails_in_binary64:
  "load_data binary64 example_dataset = Inr (example_layers binary64) \<and>
   silt_sum binary64 (example_layers binary64) () =
     Some (2026619832316723 / 2251799813685248) \<and>
   binary64 (9 / 10) = 8106479329266893 / 9007199254740992 \<and>
   \<not> gge binary64 (silt_sum binary64 (example_layers binary64)) (9 / 10) () \<and>
   silt_test binary64 (example_layers binary64) () = T_silt (example_layers binary64) () \<and>
   silt_test binary64 (example_layers binary64) () \<noteq> S_silt (example_layers binary64) () \<and>
   silt_test binary64 (example_layers binary64) () \<noteq> Some (binary64 (1 / 10))"
proof -
  have loaded: "load_data binary64 example_dataset = Inr (example_layers binary64)"
    by (rule example_load [OF binary64_consts])
  have cell: "silt_sum binary64 (example_layers binary64) () =
     Some (2026619832316723 / 2251799813685248) \<and>
   binary64 (9 / 10) = 8106479329266893 / 9007199254740992 \<and>
   \<not> gge binary64 (silt_sum binary64 (example_layers binary64)) (9 / 10) () \<and>
   silt_test binary64 (example_layers binary64) () = T_silt (example_layers binary64) () \<and>
   silt_test binary64 (example_layers binary64) () \<noteq> S_silt (example_layers binary64) () \<and>
   silt_test binary64 (example_layers binary64) () \<noteq> Some (binary64 (1 / 10))"
    by (simp add: silt_test_def silt_sum_def clay_test_def clay_sum_def sand_test_def
        sand_sum_def gadd_def gge_def da_where_def example_layers_def fadd_def fge_def b64_defs)
  from loaded cell show ?thesis by blast
qed

text \<open>
  Claim C3. In every step of the gap filler, when a value that enters the sum of three
  is missing at a cell, the sum is missing there, the comparison with 0.9 is false and
  the topsoil value is taken; in particular a missing subsoil sand gives the topsoil sand
  whatever silt and clay are.
\<close>

theorem missing_sum_forces_topsoil:
  "(S_sand L i = None \<or> S_silt L i = None \<or> S_clay L i = None \<longrightarrow>
      sand_sum rnd L i = None \<and> \<not> gge rnd (sand_sum rnd L) (9 / 10) i \<and>
      sand_test rnd L i = T_sand L i) \<and>
   (sand_test rnd L i = None \<or> S_silt L i = None \<or> S_clay L i = None \<longrightarrow>
      clay_sum rnd L i = None \<and> \<not> gge rnd (clay_sum rnd L) (9 / 10) i \<and>
      clay_test rnd L i = T_clay L i) \<and>
   (sand_test rnd L i = None \<or> S_silt L i = None \<or> clay_test rnd L i = None \<longrightarrow>
      silt_sum rnd L i = None \<and> \<not> gge rnd (silt_sum rnd L) (9 / 10) i \<and>
      silt_test rnd L i = T_silt L i) \<and>
   (S_sand L i = None \<longrightarrow> sand_test rnd L i = T_sand L i)"
proof -
  have sum_none: "fadd rnd (fadd rnd a b) c = None" if "a = None \<or> b = None \<or> c = None"
    for a b c
    using that by (auto simp: fadd_def split: option.splits)
  have step1: "sand_sum rnd L i = None \<and> \<not> gge rnd (sand_sum rnd L) (9 / 10) i \<and>
      sand_test rnd L i = T_sand L i"
    if "S_sand L i = None \<or> S_silt L i = None \<or> S_clay L i = None"
  proof -
    have "sand_sum rnd L i = None"
      using sum_none [OF that] by (simp add: sand_sum_def gadd_def)
    then show ?thesis
      by (simp add: sand_test_def gge_def da_where_def fge_None)
  qed
  have step2: "clay_sum rnd L i = None \<and> \<not> gge rnd (clay_sum rnd L) (9 / 10) i \<and>
      clay_test rnd L i = T_clay L i"
    if "sand_test rnd L i = None \<or> S_silt L i = None \<or> S_clay L i = None"
  proof -
    have "clay_sum rnd L i = None"
      using sum_none [OF that] by (simp add: clay_sum_def gadd_def)
    then show ?thesis
      by (simp add: clay_test_def gge_def da_where_def fge_None)
  qed
  have step3: "silt_sum rnd L i = None \<and> \<not> gge rnd (silt_sum rnd L) (9 / 10) i \<and>
      silt_test rnd L i = T_silt L i"
    if "sand_test rnd L i = None \<or> S_silt L i = None \<or> clay_test rnd L i = None"
  proof -
    have "silt_sum rnd L i = None"
      using sum_none [OF that] by (simp add: silt_sum_def gadd_def)
    then show ?thesis
      by (simp add: silt_test_def gge_def da_where_def fge_None)
  qed
  from step1 step2 step3 show ?thesis by blast
qed

text \<open>
  At the cell of \<open>missing_sand_layers\<close> the subsoil sand is missing: all three sums are
  missing, sand and clay take the (missing) topsoil values and silt takes the topsoil 0.2
  although subsoil silt and clay are both 0.5.
\<close>

theorem missing_sum_forces_topsoil_witness:
  "S_sand missing_sand_layers () = None \<and>
   sand_sum exact missing_sand_layers () = None \<and>
   sand_test exact missing_sand_layers () = None \<and>
   clay_test exact missing_sand_layers () = None \<and>
   silt_test exact missing_sand_layers () = Some (2 / 10) \<and>
   S_silt missing_sand_layers () = Some (5 / 10)"
  using missing_sum_forces_topsoil [of missing_sand_layers "()" exact]
  by (simp add: missing_sand_layers_def)

text \<open>
  Claim C10. When the test of a gap-filler step fails at a cell and the topsoil value
  substituted there is itself missing, the corrected subsoil cell is missing; the weighted
  mean formed with it is missing, so is the composite the program forms, and the cell of
  the output variable holds the fill value.
\<close>

theorem missing_topsoil_stays_missing:
  "(\<not> gge rnd (sand_sum rnd L) (9 / 10) i \<and> T_sand L i = None \<longrightarrow>
      sand_test rnd L i = None \<and>
      fadd rnd (fmul rnd (T_sand L i) (3 / 10)) (fmul rnd (sand_test rnd L i) (7 / 10)) = None \<and>
      Sand rnd L i = None \<and>
      map_option (\<lambda>da. cells da i) (output_vars rnd L fv ''SAND'') = Some fv) \<and>
   (\<not> gge rnd (clay_sum rnd L) (9 / 10) i \<and> T_clay L i = None \<longrightarrow>
      clay_test rnd L i = None \<and>
      fadd rnd (fmul rnd (T_clay L i) (3 / 10)) (fmul rnd (clay_test rnd L i) (7 / 10)) = None \<and>
      Clay rnd L i = None \<and>
      map_option (\<lambda>da. cells da i) (output_vars rnd L fv ''CLAY'') = Some fv) \<and>
   (\<not> gge rnd (silt_sum rnd L) (9 / 10) i \<and> T_silt L i = None \<longrightarrow>
      silt_test rnd L i = None \<and>
      fadd rnd (fmul rnd (T_silt L i) (3 / 10)) (fmul rnd (silt_test rnd L i) (7 / 10)) = None \<and>
      Silt rnd L i = None \<and>
      map_option (\<lambda>da. cells da i) (output_vars rnd L fv ''SILT'') = Some fv)"
proof -
  have sand: "sand_test rnd L i = None \<and>
      fadd rnd (fmul rnd (T_sand L i) (3 / 10)) (fmul rnd (sand_test rnd L i) (7 / 10)) = None \<and>
      Sand rnd L i = None \<and>
      map_option (\<lambda>da. cells da i) (output_vars rnd L fv ''SAND'') = Some fv"
    if "\<not> gge rnd (sand_sum rnd L) (9 / 10) i" "T_sand L i = None"
  proof -
    have "sand_test rnd L i = None"
      using that by (simp add: sand_test_def da_where_def)
    moreover have c: "Sand rnd L i = None"
      using that by (simp add: composite_cells fmul_None fadd_None)
    ultimately show ?thesis
      using that by (simp add: output_cells fillna_missing c fmul_None fadd_None)
  qed
  have clay: "clay_test rnd L i = None \<and>
      fadd rnd (fmul rnd (T_clay L i) (3 / 10)) (fmul rnd (clay_test rnd L i) (7 / 10)) = None \<and>
      Clay rnd L i = None \<and>
      map_option (\<lambda>da. cells da i) (output_vars rnd L fv ''CLAY'') = Some fv"
    if "\<not> gge rnd (clay_sum rnd L) (9 / 10) i" "T_clay L i = None"
  proof -
    have "clay_test rnd L i = None"
      using that by (simp add: clay_test_def da_where_def)
    moreover have c: "Clay rnd L i = None"
      using that by (simp add: composite_cells fmul_None fadd_None)
    ultimately show ?thesis
      using that by (simp add: output_cells fillna_missing c fmul_None fadd_None)
  qed
  have silt: "silt_test rnd L i = None \<and>
      fadd rnd (fmul rnd (T_silt L i) (3 / 10)) (fmul rnd (silt_test rnd L i) (7 / 10)) = None \<and>
      Silt rnd L i = None \<and>
      map_option (\<lambda>da. cells da i) (output_vars rnd L fv ''SILT'') = Some fv"
    if "\<not> gge rnd (silt_sum rnd L) (9 / 10) i" "T_silt L i = None"
  proof -
    have "silt_test rnd L i = None"
      using that by (simp add: silt_test_def da_where_def)
    moreover have c: "Silt rnd L i = None"
      using that by (simp add: composite_cells fmul_None fadd_None)
    ultimately show ?thesis
      using that by (simp add: output_cells fillna_missing c fmul_None fadd_None)
  qed
  from sand clay silt show ?thesis by blast
qed

text \<open>
  At the cell of \<open>missing_sand_layers\<close> the sand and clay tests fail and the topsoil sand
  and clay are missing: the output cells of SAND and CLAY hold the fill value.
\<close>

theorem missing_topsoil_stays_missing_witness:
  "\<not> gge exact (sand_sum exact missing_sand_layers) (9 / 10) () \<and>
   T_sand missing_sand_layers () = None \<and>
   sand_test exact missing_sand_layers () = None \<and>
   Sand exact missing_sand_layers () = None \<and>
   map_option (\<lambda>da. cells da ()) (output_vars exact missing_sand_layers (PyStr ''-9999.'') ''SAND'')
     = Some (PyStr ''-9999.'') \<and>
   \<not> gge exact (clay_sum exact missing_sand_layers) (9 / 10) () \<and>
   T_clay missing_sand_layers () = None \<and>
   map_option (\<lambda>da. cells da ()) (output_vars exact missing_sand_layers (PyStr ''-9999.'') ''CLAY'')
     = Some (PyStr ''-9999.'')"
  using missing_topsoil_stays_missing [of exact missing_sand_layers "()" "PyStr ''-9999.''"]
  by (simp add: missing_sand_layers_def sand_sum_def clay_sum_def sand_test_def gge_def gadd_def
      da_where_def fadd_def fge_def)

section \<open>Properties of the column compositor\<close>

text \<open>
  Claim C1 says that the sand, silt and clay composites are formed from the gap-filled
  subsoil grids. The program forms them, at every cell, from the subsoil grids as loaded,
  and \<open>sand_test\<close>, \<open>clay_test\<close> and \<open>silt_test\<close> do not enter them: in the run on
  \<open>example_dataset\<close> the sand composite is 0.3 * 0.6 + 0.7 * 0.5 = 0.53, while the
  gap-filled sand is 0.6 and the weighted mean formed with it is 0.6.
\<close>

theorem texture_composites_use_raw_subsoil:
  "Sand rnd L i = fadd rnd (fmul rnd (T_sand L i) (3 / 10)) (fmul rnd (S_sand L i) (7 / 10)) \<and>
   Clay rnd L i = fadd rnd (fmul rnd (T_clay L i) (3 / 10)) (fmul rnd (S_clay L i) (7 / 10)) \<and>
   Silt rnd L i = fadd rnd (fmul rnd (T_silt L i) (3 / 10)) (fmul rnd (S_silt L i) (7 / 10)) \<and>
   load_data exact example_dataset = Inr (example_layers exact) \<and>
   (case snd (main exact default_cmdline example_fs example_store clock_a) of
      Inl e \<Rightarrow> False
    | Inr w \<Rightarrow> out_cell w ''SAND'' () = Some (PyFloat (Some (53 / 100)))) \<and>
   sand_test exact (example_layers exact) () = Some (6 / 10) \<and>
   fadd exact (fmul exact (T_sand (example_layers exact) ()) (3 / 10))
     (fmul exact (sand_test exact (example_layers exact) ()) (7 / 10)) = Some (6 / 10)"
proof -
  obtain na where run: "main exact default_cmdline example_fs example_store clock_a =
     ([], Inr \<lparr>w_path = (''/data/hwsd'', ''HWSD_soilcomposition_test.nc''),
               w_dataset =
                 \<lparr>out_vars = output_vars exact (example_layers exact) (PyStr ''-9999.''),
                  out_attrs = na\<rparr>,
               w_encoding =
                 (\<lambda>var. map_option (\<lambda>x. encod)
                          (output_vars exact (example_layers exact) (PyStr ''-9999.'') var))\<rparr>)"
    using example_main [OF exact_consts, of clock_a] by blast
  have sand: "Sand exact (example_layers exact) () = Some (53 / 100)"
    by (simp add: composite_cells example_layers_def fadd_def fmul_def exact_def)
  have cell: "(case snd (main exact default_cmdline example_fs example_store clock_a) of
      Inl e \<Rightarrow> False
    | Inr w \<Rightarrow> out_cell w ''SAND'' () = Some (PyFloat (Some (53 / 100))))"
    by (simp add: run out_cell_def output_cells fillna_def as_objects_def isnull_def sand)
  have st: "sand_test exact (example_layers exact) () = Some (6 / 10)"
    by (rule example_exact_sand)
  have gf: "fadd exact (fmul exact (T_sand (example_layers exact) ()) (3 / 10))
     (fmul exact (sand_test exact (example_layers exact) ()) (7 / 10)) = Some (6 / 10)"
    unfolding st by (simp add: example_layers_def fadd_def fmul_def exact_def)
  note raw = composite_cells(1-3) [of rnd L i]
  from raw example_load [OF exact_consts] cell st gf show ?thesis by blast
qed

text \<open>
  Claim C4 says that every composite is 0.3 * topsoil + 0.7 * corrected subsoil where the
  inputs are present. At the example cell all inputs are present and the corrected
  subsoil clay is 0.2, so that weighted mean is 0.2; the clay composite of the program is
  0.3 * 0.2 + 0.7 * 0.1 = 0.13, formed with the subsoil clay as loaded.
\<close>

theorem clay_composite_differs_from_corrected_mean:
  "T_clay (example_layers exact) () = Some (2 / 10) \<and>
   S_clay (example_layers exact) () = Some (1 / 10) \<and>
   clay_test exact (example_layers exact) () = Some (2 / 10) \<and>
   Clay exact (example_layers exact) () = Some (13 / 100) \<and>
   fadd exact (fmul exact (T_clay (example_layers exact) ()) (3 / 10))
     (fmul exact (clay_test exact (example_layers exact) ()) (7 / 10)) = Some (2 / 10)"
  by (simp add: composite_cells clay_test_cell sand_test_cell example_layers_def fadd_def
      fmul_def fge_def exact_def)

section \<open>Properties of the sentinel\<close>




text \<open>
  Claim C7. Filling twice gives the same grid as filling once, and filling changes no
  cell that is not missing, a zero included. The filled variable of the program is
  \<open>filled h v\<close>, the composite \<open>h\<close> after \<^verbatim>\<open>fillna\<close> with the fill value \<open>v\<close>.
\<close>

theorem fillna_idempotent:
  "fillna (fillna g v) v = fillna g v \<and>
   cells (filled h v) = fillna (as_objects h) v \<and>
   fillna (cells (filled h v)) v = cells (filled h v) \<and>
   (\<not> isnull (g i) \<longrightarrow> fillna g v i = g i) \<and>
   (h j = Some x \<longrightarrow> cells (filled h v) j = PyFloat (Some x)) \<and>
   (h j = Some 0 \<longrightarrow> cells (filled h v) j = PyFloat (Some 0))"
  by (auto simp add: fillna_def filled_def as_objects_def isnull_def fun_eq_iff)

text \<open>The grid \<open>zero_and_gap\<close>: the zero stays, the gap is filled, a second filling changes nothing.\<close>

theorem fillna_idempotent_witness:
  "zero_and_gap True = Some 0 \<and>
   \<not> isnull (as_objects zero_and_gap True) \<and>
   cells (filled zero_and_gap (PyStr ''-9999.'')) True = PyFloat (Some 0) \<and>
   cells (filled zero_and_gap (PyStr ''-9999.'')) False = PyStr ''-9999.'' \<and>
   fillna (cells (filled zero_and_gap (PyStr ''-9999.''))) (PyStr ''-9999.'') False =
     PyStr ''-9999.'' \<and>
   fillna (as_objects zero_and_gap) (PyStr ''-9999.'') True = as_objects zero_and_gap True"
  using fillna_idempotent [of "as_objects zero_and_gap" "PyStr ''-9999.''" zero_and_gap True True 0]
  by (simp add: zero_and_gap_def as_objects_def isnull_def fillna_def filled_def)

section \<open>Properties of the dataset attributes\<close>




section \<open>Properties of the configuration reader\<close>

text \<open>
  Claim C8, as amended. When the configuration file is absent, \<^verbatim>\<open>read_config\<close> prints a
  warning and then fails at its next statement with \<^verbatim>\<open>UnboundLocalError\<close>, since its local
  variable \<open>config\<close> was never bound; it returns no configuration, and the run ends with
  that exception. Any other I/O error of the read leaves \<^verbatim>\<open>read_config\<close> and the run as
  it is, with nothing printed.
\<close>

theorem read_config_io_errors:
  "(fs name = Inl (IOError ENOENT) \<longrightarrow>
      read_config fs (PyStr name) =
        ([''warning: Configuration file '' @ name @ '' not found!''],
         Inl (UnboundLocalError ''config'')) \<and>
      (config (parse_arguments cl) = PyStr name \<longrightarrow>
         main rnd cl fs store cur_time =
           ([''warning: Configuration file '' @ name @ '' not found!''],
            Inl (UnboundLocalError ''config'')))) \<and>
   (fs name = Inl (IOError e) \<and> e \<noteq> ENOENT \<longrightarrow>
      read_config fs (PyStr name) = ([], Inl (IOError e)) \<and>
      (config (parse_arguments cl) = PyStr name \<longrightarrow>
         main rnd cl fs store cur_time = ([], Inl (IOError e))))"
proof -
  have absent: "read_config fs (PyStr name) =
        ([''warning: Configuration file '' @ name @ '' not found!''],
         Inl (UnboundLocalError ''config''))"
    if "fs name = Inl (IOError ENOENT)"
    using that by (simp add: read_config_def set_path_def)
  have other: "read_config fs (PyStr name) = ([], Inl (IOError e))"
    if "fs name = Inl (IOError e)" "e \<noteq> ENOENT"
    using that by (simp add: read_config_def)
  have run_absent: "main rnd cl fs store cur_time =
           ([''warning: Configuration file '' @ name @ '' not found!''],
            Inl (UnboundLocalError ''config''))"
    if "fs name = Inl (IOError ENOENT)" "config (parse_arguments cl) = PyStr name"
    by (rule main_config_error) (simp add: that absent)
  have run_other: "main rnd cl fs store cur_time = ([], Inl (IOError e))"
    if "fs name = Inl (IOError e)" "e \<noteq> ENOENT" "config (parse_arguments cl) = PyStr name"
    by (rule main_config_error) (simp add: that other)
  from absent other run_absent run_other show ?thesis by blast
qed

text \<open>
  With no file at all (\<open>absent_fs\<close>) and with a file that may not be read (\<open>unreadable_fs\<close>,
  error number 13), on the default command line.
\<close>

theorem read_config_io_errors_witness:
  "absent_fs ''config.yaml'' = Inl (IOError ENOENT) \<and>
   config (parse_arguments default_cmdline) = PyStr ''config.yaml'' \<and>
   read_config absent_fs (PyStr ''config.yaml'') =
     ([''warning: Configuration file config.yaml not found!''],
      Inl (UnboundLocalError ''config'')) \<and>
   main exact default_cmdline absent_fs example_store clock_a =
     ([''warning: Configuration file config.yaml not found!''],
      Inl (UnboundLocalError ''config'')) \<and>
   unreadable_fs ''config.yaml'' = Inl (IOError 13) \<and> 13 \<noteq> ENOENT \<and>
   main exact default_cmdline unreadable_fs example_store clock_a = ([], Inl (IOError 13))"
proof -
  have a: "absent_fs ''config.yaml'' = Inl (IOError ENOENT)"
    by (simp add: absent_fs_def)
  have u: "unreadable_fs ''config.yaml'' = Inl (IOError 13)" "13 \<noteq> ENOENT"
    by (simp_all add: unreadable_fs_def ENOENT_def)
  have c: "config (parse_arguments default_cmdline) = PyStr ''config.yaml''"
    by (simp add: default_args)
  from read_config_io_errors [of absent_fs "''config.yaml''" default_cmdline exact
      example_store clock_a 13]
    read_config_io_errors [of unreadable_fs "''config.yaml''" default_cmdline exact
      example_store clock_a 13]
    a u c
  show ?thesis by simp
qed

text \<open>
  Claim C8 as stated fails where the file is absent: the exception is
  \<^verbatim>\<open>UnboundLocalError\<close> for the variable \<open>config\<close>, raised inside \<^verbatim>\<open>read_config\<close>, not a
  \<^verbatim>\<open>KeyError\<close> or an \<^verbatim>\<open>AttributeError\<close> of a later access.
\<close>

theorem absent_config_raises_unbound_local:
  "read_config absent_fs (PyStr ''config.yaml'') =
     ([''warning: Configuration file config.yaml not found!''],
      Inl (UnboundLocalError ''config'')) \<and>
   snd (main exact default_cmdline absent_fs example_store clock_a) =
     Inl (UnboundLocalError ''config'') \<and>
   snd (main exact default_cmdline absent_fs example_store clock_a) \<noteq> Inl (KeyError ''path'') \<and>
   snd (main exact default_cmdline absent_fs example_store clock_a) \<noteq>
     Inl (AttributeError ''path'')"
proof -
  have r: "read_config absent_fs (PyStr ''config.yaml'') =
     ([''warning: Configuration file config.yaml not found!''],
      Inl (UnboundLocalError ''config''))"
    by (simp add: read_config_def absent_fs_def set_path_def)
  have c: "config (parse_arguments default_cmdline) = PyStr ''config.yaml''"
    by (simp add: default_args)
  have "main exact default_cmdline absent_fs example_store clock_a =
     ([''warning: Configuration file config.yaml not found!''],
      Inl (UnboundLocalError ''config''))"
    by (rule main_config_error) (simp add: c r)
  with r show ?thesis by simp
qed

section \<open>Two runs of the program\<close>

text \<open>
  Claim C9, as amended. Two runs on the same command line, files and data, at any two
  clock readings, print the same lines and end alike: with the same exception, or with
  the same path, variables, encodings and dataset attributes but for the attribute
  \<open>modified\<close>, which holds the time of the run.
\<close>

theorem runs_agree_up_to_timestamp:
  "fst (main rnd cl fs store t) = fst (main rnd cl fs store t') \<and>
   map_sum id forget_modified (snd (main rnd cl fs store t)) =
   map_sum id forget_modified (snd (main rnd cl fs store t'))"
proof -
  have printed: "fst (main rnd cl fs store t) = fst (main rnd cl fs store t')"
    by (simp add: main_def Let_def)
  have result: "map_sum id forget_modified (snd (main rnd cl fs store t)) =
      map_sum id forget_modified (snd (main rnd cl fs store t'))"
  proof (cases "snd (read_config fs (config (parse_arguments cl)))")
    case (Inl e)
    then show ?thesis
      by (simp add: main_def and_then_def Let_def)
  next
    case cfg: (Inr cfg)
    show ?thesis
    proof (cases "readin store cfg")
      case (Inl e)
      with cfg show ?thesis
        by (simp add: main_def and_then_def Let_def)
    next
      case ds: (Inr ds)
      show ?thesis
      proof (cases "load_data rnd ds")
        case (Inl e)
        with cfg ds show ?thesis
          by (simp add: main_def and_then_def Let_def)
      next
        case L: (Inr L)
        have clock: "map_sum id (\<lambda>a. a(''modified'' := None)) (new_attrs (attrs ds) t) =
            map_sum id (\<lambda>a. a(''modified'' := None)) (new_attrs (attrs ds) t')"
          by (rule new_attrs_clock)
        show ?thesis
        proof (cases "conf_dir cfg")
          case (Inl e)
          with cfg ds L clock show ?thesis
            by (cases "new_attrs (attrs ds) t"; cases "new_attrs (attrs ds) t'")
              (simp_all add: main_def and_then_def Let_def)
        next
          case dir: (Inr dir)
          with cfg ds L clock show ?thesis
            by (cases "new_attrs (attrs ds) t"; cases "new_attrs (attrs ds) t'")
              (simp_all add: main_def and_then_def Let_def forget_modified_def)
        qed
      qed
    qed
  qed
  from printed result show ?thesis by blast
qed

text \<open>
  Claim C9 as stated fails: the runs on \<open>example_dataset\<close> at 12:00:00 and at 12:00:01
  write datasets whose attribute \<open>modified\<close> differs.
\<close>

theorem runs_at_different_times_differ:
  "(case snd (main exact default_cmdline example_fs example_store clock_a) of
      Inl e \<Rightarrow> False
    | Inr w \<Rightarrow> out_attrs (w_dataset w) ''modified'' =
        Some (PyStr ''Claire Carouge, Wed 04 Nov 2026 12:00:00 UTC'')) \<and>
   (case snd (main exact default_cmdline example_fs example_store clock_b) of
      Inl e \<Rightarrow> False
    | Inr w \<Rightarrow> out_attrs (w_dataset w) ''modified'' =
        Some (PyStr ''Claire Carouge, Wed 04 Nov 2026 12:00:01 UTC'')) \<and>
   main exact default_cmdline example_fs example_store clock_a \<noteq>
   main exact default_cmdline example_fs example_store clock_b"
proof -
  obtain na where run: "new_attrs example_attrs clock_a = Inr na"
    "main exact default_cmdline example_fs example_store clock_a =
     ([], Inr \<lparr>w_path = (''/data/hwsd'', ''HWSD_soilcomposition_test.nc''),
               w_dataset =
                 \<lparr>out_vars = output_vars exact (example_layers exact) (PyStr ''-9999.''),
                  out_attrs = na\<rparr>,
               w_encoding =
                 (\<lambda>var. map_option (\<lambda>x. encod)
                          (output_vars exact (example_layers exact) (PyStr ''-9999.'') var))\<rparr>)"
    using example_main [OF exact_consts, of clock_a] by blast
  obtain na' where run': "new_attrs example_attrs clock_b = Inr na'"
    "main exact default_cmdline example_fs example_store clock_b =
     ([], Inr \<lparr>w_path = (''/data/hwsd'', ''HWSD_soilcomposition_test.nc''),
               w_dataset =
                 \<lparr>out_vars = output_vars exact (example_layers exact) (PyStr ''-9999.''),
                  out_attrs = na'\<rparr>,
               w_encoding =
                 (\<lambda>var. map_option (\<lambda>x. encod)
                          (output_vars exact (example_layers exact) (PyStr ''-9999.'') var))\<rparr>)"
    using example_main [OF exact_consts, of clock_b] by blast
  have m: "na ''modified'' = Some (PyStr ''Claire Carouge, Wed 04 Nov 2026 12:00:00 UTC'')"
    using run(1) by (auto simp add: example_new_attrs clock_a_def)
  have m': "na' ''modified'' = Some (PyStr ''Claire Carouge, Wed 04 Nov 2026 12:00:01 UTC'')"
    using run'(1) by (auto simp add: example_new_attrs clock_b_def)
  from m m' have "na \<noteq> na'"
    by auto
  with m m' show ?thesis
    by (simp add: run run')
qed

end
